theory Spec2Isabelle
  imports Main
begin

section \<open>The chat store of \<^verbatim>\<open>src/common/stores/chat/store-chats.ts\<close>\<close>

text \<open>
  The store holds one field, \<^verbatim>\<open>conversations: DConversation[]\<close>, and the actions
  replace that list. Each action is embedded as a function from the list (and the
  arguments of the call) to the new list, the value the action returns, and the list of
  side effects it performed in order: calls of \<^verbatim>\<open>abort()\<close> on a controller and lines
  written to the console. JavaScript objects are embedded by value; where the source
  mutates an argument in place and then stores it (the token count of a message), the
  stored value is the mutated one.
\<close>

subsection \<open>Data model\<close>

type_synonym DConversationId = string
type_synonym DMessageId = string
type_synonym DMessageFragmentId = string
type_synonym SystemPurposeId = string
type_synonym DLLMId = string

text \<open>An \<^verbatim>\<open>AbortController\<close> is an object with identity; the number names the object.\<close>

type_synonym AbortController = nat

text \<open>
  Modelled from the spec: the model descriptor that \<^verbatim>\<open>findLLMOrThrow\<close> returns
  (\<^verbatim>\<open>modules/llms/store-llms\<close> is not part of the sources). The store passes it to the
  estimator and never looks inside.
\<close>

datatype DLLM = DLLM string

text \<open>
  Modelled from the spec: the fragment types of \<^verbatim>\<open>chat.fragments\<close>, which is not part of
  the sources. The store reads \<^verbatim>\<open>fId\<close>, \<^verbatim>\<open>part.pt\<close>, \<^verbatim>\<open>part.pText\<close> and, of an image
  reference, \<^verbatim>\<open>part.dataRef\<close> with \<^verbatim>\<open>reftype\<close>, the legacy \<^verbatim>\<open>dblobId\<close> and
  \<^verbatim>\<open>dblobAssetId\<close>. A field that may be absent is an option; \<^verbatim>\<open>None\<close> is
  \<^verbatim>\<open>undefined\<close>.
\<close>

record DataRef =
  reftype :: string
  dblobId :: "string option"
  dblobAssetId :: "string option"

datatype DMessagePart =
    TextPart string
  | ImageRefPart DataRef
  | ErrorPart string
  | PlaceholderPart string
  | OtherPart string

datatype FragmentType = FtContent | FtAttachment | FtOther

record DMessageFragment =
  ft :: FragmentType
  fId :: "DMessageFragmentId option"
  part :: DMessagePart

text \<open>
  The fields of \<^verbatim>\<open>DMessage\<close> that the store reads or writes. \<^verbatim>\<open>tokenCount\<close> is declared
  \<^verbatim>\<open>number\<close> and holds an integer count; \<^verbatim>\<open>pendingIncomplete\<close> and the legacy
  \<^verbatim>\<open>typing\<close> are optional, and \<^verbatim>\<open>delete\<close> makes them \<^verbatim>\<open>None\<close>.
\<close>

record DMessage =
  m_id :: DMessageId
  m_fragments :: "DMessageFragment list"
  m_pendingIncomplete :: "bool option"
  m_typing :: "bool option"
  m_tokenCount :: int
  m_updated :: "int option"

text \<open>
  A conversation as it is persisted has every field but the controller; the conversation
  of the running store extends it with \<^verbatim>\<open>abortController: AbortController | null\<close>.
\<close>

record DConversationStored =
  c_id :: DConversationId
  c_messages :: "DMessage list"
  c_systemPurposeId :: SystemPurposeId
  c_userTitle :: "string option"
  c_autoTitle :: "string option"
  c_userSymbol :: "string option"
  c_tokenCount :: int
  c_updated :: "int option"

record DConversation = DConversationStored +
  c_abortController :: "AbortController option"

subsection \<open>Side effects and the environment\<close>

datatype Event =
    Abort AbortController
  | ConsoleWarn "string list"
  | ConsoleError "string list"

text \<open>
  What the store reads from outside itself. \<^verbatim>\<open>findLLMOrThrow\<close> and the estimator may
  throw: \<^verbatim>\<open>None\<close>. \<^verbatim>\<open>agiId\<close> and \<^verbatim>\<open>agiUuid\<close> take the namespace and the number of
  identifiers handed out before the call, as do the two constructors that draw identifiers.
  \<^verbatim>\<open>dateNow\<close> is the value of \<^verbatim>\<open>Date.now()\<close> during the call.
\<close>

record Env =
  getChatLLMId :: "DLLMId option"
  findLLMOrThrow :: "DLLMId \<Rightarrow> DLLM option"
  estimateTokensForFragments :: "DMessageFragment list \<Rightarrow> DLLM \<Rightarrow> bool \<Rightarrow> string \<Rightarrow> int option"
  dateNow :: int
  agiId :: "string \<Rightarrow> nat \<Rightarrow> string"
  agiUuid :: "string \<Rightarrow> nat \<Rightarrow> string"
  createDConversation :: "SystemPurposeId option \<Rightarrow> nat \<Rightarrow> DConversation"
  createErrorContentFragment :: "string \<Rightarrow> nat \<Rightarrow> DMessageFragment"

subsection \<open>JavaScript helpers\<close>

text \<open>\<^verbatim>\<open>!s\<close> for a value of type \<^verbatim>\<open>string | null | undefined\<close>.\<close>

definition falsyString :: "string option \<Rightarrow> bool" where
  "falsyString s = (case s of None \<Rightarrow> True | Some t \<Rightarrow> t = [])"

text \<open>\<^verbatim>\<open>!b\<close> for a value of type \<^verbatim>\<open>boolean | undefined\<close>.\<close>

definition falsyBool :: "bool option \<Rightarrow> bool" where
  "falsyBool b = (case b of None \<Rightarrow> True | Some v \<Rightarrow> \<not> v)"

text \<open>\<^verbatim>\<open>x || 0\<close> for a number: 0 is the falsy one.\<close>

definition orZero :: "int \<Rightarrow> int" where
  "orZero x = (if x = 0 then 0 else x)"

text \<open>\<^verbatim>\<open>Array.prototype.findIndex\<close>: the first index that satisfies, or -1.\<close>

fun findIndexFrom :: "('a \<Rightarrow> bool) \<Rightarrow> 'a list \<Rightarrow> int \<Rightarrow> int" where
  "findIndexFrom p [] i = - 1"
| "findIndexFrom p (x # xs) i = (if p x then i else findIndexFrom p xs (i + 1))"

definition findIndex :: "('a \<Rightarrow> bool) \<Rightarrow> 'a list \<Rightarrow> int" where
  "findIndex p xs = findIndexFrom p xs 0"

text \<open>\<^verbatim>\<open>xs.map((x, index) => f(x, index))\<close>, counting from \<open>i\<close>.\<close>

fun mapIndexFrom :: "('a \<Rightarrow> int \<Rightarrow> 'b) \<Rightarrow> 'a list \<Rightarrow> int \<Rightarrow> 'b list" where
  "mapIndexFrom f [] i = []"
| "mapIndexFrom f (x # xs) i = f x i # mapIndexFrom f xs (i + 1)"

text \<open>\<^verbatim>\<open>xs.map(f)\<close> for a callback with side effects: the effects in call order.\<close>

fun mapEvents :: "('a \<Rightarrow> 'b \<times> Event list) \<Rightarrow> 'a list \<Rightarrow> 'b list \<times> Event list" where
  "mapEvents f [] = ([], [])"
| "mapEvents f (x # xs) =
     (case f x of (y, e) \<Rightarrow>
        (case mapEvents f xs of (ys, es) \<Rightarrow> (y # ys, e @ es)))"

text \<open>\<^verbatim>\<open>conversation.abortController?.abort()\<close>.\<close>

definition abortOf :: "DConversation \<Rightarrow> Event list" where
  "abortOf conversation =
     (case c_abortController conversation of None \<Rightarrow> [] | Some h \<Rightarrow> [Abort h])"

subsection \<open>Token accounting\<close>

text \<open>
  \<^verbatim>\<open>updateMessageTokenCount\<close>: the message after the call, the number returned, and the
  console lines. The \<^verbatim>\<open>try\<close> block covers the lookup and the estimator.
\<close>

definition updateMessageTokenCount ::
  "Env \<Rightarrow> DMessage \<Rightarrow> DLLMId option \<Rightarrow> bool \<Rightarrow> string \<Rightarrow> DMessage \<times> int \<times> Event list" where
  "updateMessageTokenCount env message llmId forceUpdate debugFrom =
     (if forceUpdate \<or> m_tokenCount message = 0 then
        (case llmId of
           None \<Rightarrow> (message\<lparr>m_tokenCount := 0\<rparr>, 0, [])
         | Some lid \<Rightarrow>
             if lid = [] then (message\<lparr>m_tokenCount := 0\<rparr>, 0, [])
             else
               (case findLLMOrThrow env lid of
                  None \<Rightarrow>
                    (message\<lparr>m_tokenCount := 0\<rparr>, 0,
                     [ConsoleError [''updateMessageTokenCount: LLM not found for ID '' @ lid]])
                | Some dllm \<Rightarrow>
                    (case estimateTokensForFragments env (m_fragments message) dllm False debugFrom of
                       None \<Rightarrow>
                         (message\<lparr>m_tokenCount := 0\<rparr>, 0,
                          [ConsoleError [''updateMessageTokenCount: LLM not found for ID '' @ lid]])
                     | Some n \<Rightarrow> (message\<lparr>m_tokenCount := n\<rparr>, n, []))))
      else (message, m_tokenCount message, []))"

text \<open>
  The \<^verbatim>\<open>reduce\<close> of \<^verbatim>\<open>updateMessagesTokenCounts\<close>, from the accumulator \<open>acc\<close> (the source's \<^verbatim>\<open>sum\<close>): the
  messages after the calls, the final accumulator, the console lines.
\<close>

fun reduceTokenCounts ::
  "Env \<Rightarrow> DLLMId option \<Rightarrow> bool \<Rightarrow> string \<Rightarrow> DMessage list \<Rightarrow> int \<Rightarrow> DMessage list \<times> int \<times> Event list" where
  "reduceTokenCounts env chatLLMId forceUpdate debugFrom [] acc = ([], acc, [])"
| "reduceTokenCounts env chatLLMId forceUpdate debugFrom (message # rest) acc =
     (case updateMessageTokenCount env message chatLLMId forceUpdate debugFrom of
        (message', n, e) \<Rightarrow>
          (case reduceTokenCounts env chatLLMId forceUpdate debugFrom rest (4 + n + acc) of
             (rest', r, es) \<Rightarrow> (message' # rest', r, e @ es)))"

definition updateMessagesTokenCounts ::
  "Env \<Rightarrow> DMessage list \<Rightarrow> bool \<Rightarrow> string \<Rightarrow> DMessage list \<times> int \<times> Event list" where
  "updateMessagesTokenCounts env messages forceUpdate debugFrom =
     (let chatLLMId = getChatLLMId env in
      case reduceTokenCounts env chatLLMId forceUpdate debugFrom messages 0 of
        (messages', r, es) \<Rightarrow> (messages', 3 + r, es))"

text \<open>
  The fold that \<^verbatim>\<open>appendMessage\<close>, \<^verbatim>\<open>deleteMessage\<close> and \<^verbatim>\<open>editMessage\<close> write inline:
  \<^verbatim>\<open>messages.reduce((sum, message) => sum + 4 + message.tokenCount || 0, 3)\<close>, where
  \<^verbatim>\<open>||\<close> binds weaker than \<^verbatim>\<open>+\<close>.
\<close>

definition foldTokenCount :: "DMessage list \<Rightarrow> int" where
  "foldTokenCount messages =
     foldl (\<lambda>acc message. orZero (acc + 4 + m_tokenCount message)) 3 messages"

subsection \<open>Editing one conversation\<close>

text \<open>
  \<^verbatim>\<open>_editConversation\<close> with a function for \<^verbatim>\<open>update\<close>. The function is given as the
  conversation merged with the patch it returns (\<^verbatim>\<open>{...conversation, ...update(conversation)}\<close>)
  and the side effects of the call. Every conversation of the list whose id matches is
  replaced, the others are kept.
\<close>

definition editConversation ::
  "DConversationId \<Rightarrow> (DConversation \<Rightarrow> DConversation \<times> Event list) \<Rightarrow>
   DConversation list \<Rightarrow> DConversation list \<times> Event list" where
  "editConversation conversationId update conversations =
     mapEvents (\<lambda>conversation.
        if c_id conversation = conversationId then update conversation
        else (conversation, [])) conversations"

definition setMessages ::
  "Env \<Rightarrow> DConversationId \<Rightarrow> DMessage list \<Rightarrow> DConversation list \<Rightarrow>
   DConversation list \<times> Event list" where
  "setMessages env conversationId newMessages =
     editConversation conversationId (\<lambda>conversation.
        case updateMessagesTokenCounts env newMessages False ''setMessages'' of
          (messages, n, es) \<Rightarrow>
            (conversation\<lparr>
               c_messages := messages,
               c_autoTitle := (if newMessages \<noteq> [] then c_autoTitle conversation else None),
               c_tokenCount := n,
               c_updated := Some (dateNow env),
               c_abortController := None\<rparr>,
             abortOf conversation @ es))"

text \<open>
  \<^verbatim>\<open>appendMessage\<close>: \<^verbatim>\<open>updateMessagesTokenCounts([message], true, ...)\<close> writes the count
  into the message, and the array of that one message, after the call, is what is appended.
\<close>

definition appendMessage ::
  "Env \<Rightarrow> DConversationId \<Rightarrow> DMessage \<Rightarrow> DConversation list \<Rightarrow>
   DConversation list \<times> Event list" where
  "appendMessage env conversationId message =
     editConversation conversationId (\<lambda>conversation.
        case (if falsyBool (m_pendingIncomplete message)
              then (case updateMessagesTokenCounts env [message] True ''appendMessage'' of
                      (ms, n, es) \<Rightarrow> (ms, es))
              else ([message], [])) of
          (appended, es) \<Rightarrow>
            (let messages = c_messages conversation @ appended in
             (conversation\<lparr>
                c_messages := messages,
                c_tokenCount := foldTokenCount messages,
                c_updated := Some (dateNow env)\<rparr>,
              es)))"

definition deleteMessage ::
  "Env \<Rightarrow> DConversationId \<Rightarrow> DMessageId \<Rightarrow> DConversation list \<Rightarrow>
   DConversation list \<times> Event list" where
  "deleteMessage env conversationId messageId =
     editConversation conversationId (\<lambda>conversation.
        let messages = filter (\<lambda>message. m_id message \<noteq> messageId) (c_messages conversation) in
        (conversation\<lparr>
           c_messages := messages,
           c_tokenCount := foldTokenCount messages,
           c_updated := Some (dateNow env)\<rparr>,
         []))"

text \<open>
  \<^verbatim>\<open>editMessage\<close> with a function for \<^verbatim>\<open>update\<close>. A \<^verbatim>\<open>Partial<DMessage>\<close> is given as
  the fields it overwrites, a function from the message to the message with those fields
  set; the empty patch \<^verbatim>\<open>{}\<close> is the identity. The update function may write to the
  console. \<open>editOneMessage\<close> is the callback of the \<^verbatim>\<open>map\<close> over the messages.
\<close>

definition editOneMessage ::
  "Env \<Rightarrow> DMessageId \<Rightarrow> (DMessage \<Rightarrow> (DMessage \<Rightarrow> DMessage) \<times> Event list) \<Rightarrow> bool \<Rightarrow> bool \<Rightarrow>
   DMessage \<Rightarrow> DMessage \<times> Event list" where
  "editOneMessage env messageId update removePendingState touchUpdated message =
     (if m_id message \<noteq> messageId then (message, [])
      else
        (case update message of
           (patch, es1) \<Rightarrow>
             (let merged = patch message;
                  touched = (if touchUpdated then merged\<lparr>m_updated := Some (dateNow env)\<rparr> else merged);
                  updatedMessage =
                    (if removePendingState then touched\<lparr>m_pendingIncomplete := None\<rparr> else touched)
              in if falsyBool (m_pendingIncomplete updatedMessage)
                 then (case updateMessageTokenCount env updatedMessage (getChatLLMId env) True
                              ''editMessage(incomplete=false)'' of
                         (counted, n, es2) \<Rightarrow> (counted, es1 @ es2))
                 else (updatedMessage, es1))))"

definition editMessage ::
  "Env \<Rightarrow> DConversationId \<Rightarrow> DMessageId \<Rightarrow>
   (DMessage \<Rightarrow> (DMessage \<Rightarrow> DMessage) \<times> Event list) \<Rightarrow> bool \<Rightarrow> bool \<Rightarrow>
   DConversation list \<Rightarrow> DConversation list \<times> Event list" where
  "editMessage env conversationId messageId update removePendingState touchUpdated =
     editConversation conversationId (\<lambda>conversation.
        case mapEvents (editOneMessage env messageId update removePendingState touchUpdated)
               (c_messages conversation) of
          (messages, es) \<Rightarrow>
            (conversation\<lparr>
               c_messages := messages,
               c_tokenCount := foldTokenCount messages,
               c_updated := (if touchUpdated then Some (dateNow env) else c_updated conversation)\<rparr>,
             es))"

text \<open>The update function that \<^verbatim>\<open>replaceMessageFragment\<close> hands to \<^verbatim>\<open>editMessage\<close>.\<close>

definition replaceFragmentUpdate ::
  "DMessageFragmentId \<Rightarrow> DMessageFragment \<Rightarrow> DMessage \<Rightarrow> (DMessage \<Rightarrow> DMessage) \<times> Event list" where
  "replaceFragmentUpdate fragmentId newFragment message =
     (let fragmentIndex = findIndex (\<lambda>f. fId f = Some fragmentId) (m_fragments message) in
      if fragmentIndex < 0
      then (\<lambda>m. m, [ConsoleError [''replaceFragment: fragment not found for ID '' @ fragmentId]])
      else (\<lambda>m. m\<lparr>m_fragments :=
                    mapIndexFrom (\<lambda>fragment index. if index = fragmentIndex then newFragment else fragment)
                      (m_fragments message) 0\<rparr>,
            []))"

definition replaceMessageFragment ::
  "Env \<Rightarrow> DConversationId \<Rightarrow> DMessageId \<Rightarrow> DMessageFragmentId \<Rightarrow> DMessageFragment \<Rightarrow>
   bool \<Rightarrow> bool \<Rightarrow> DConversation list \<Rightarrow> DConversation list \<times> Event list" where
  "replaceMessageFragment env conversationId messageId fragmentId newFragment
       removePendingState touchUpdated =
     editMessage env conversationId messageId (replaceFragmentUpdate fragmentId newFragment)
       removePendingState touchUpdated"

subsection \<open>Creating, importing, branching and deleting conversations\<close>

text \<open>
  Each action returns the new list, the value the source returns, and the side effects.
  \<open>k\<close> is the number of identifiers handed out before the call.
\<close>

definition importConversation ::
  "Env \<Rightarrow> nat \<Rightarrow> DConversation \<Rightarrow> bool \<Rightarrow> DConversation list \<Rightarrow>
   DConversation list \<times> DConversationId \<times> Event list" where
  "importConversation env k conversation preventClash conversations =
     (case (case find (\<lambda>c. c_id c = c_id conversation) conversations of
              None \<Rightarrow> (conversation, [])
            | Some existing \<Rightarrow>
                if preventClash
                then (let newId = agiUuid env ''chat-dconversation'' k in
                      (conversation\<lparr>c_id := newId\<rparr>,
                       abortOf existing @
                       [ConsoleWarn [''Conversation ID clash, changing ID to'', newId]]))
                else (conversation, abortOf existing)) of
        (renamed, es1) \<Rightarrow>
          (case updateMessagesTokenCounts env (c_messages renamed) True ''importConversation'' of
             (messages, n, es2) \<Rightarrow>
               (let imported = renamed\<lparr>c_messages := messages, c_tokenCount := n\<rparr> in
                (imported # filter (\<lambda>c. c_id c \<noteq> c_id imported) conversations,
                 c_id imported,
                 es1 @ es2))))"

definition deleteConversations ::
  "Env \<Rightarrow> nat \<Rightarrow> DConversationId list \<Rightarrow> SystemPurposeId option \<Rightarrow> DConversation list \<Rightarrow>
   DConversation list \<times> DConversationId \<times> Event list" where
  "deleteConversations env k conversationIds newConversationPersonaId conversations =
     (let cIndex = (case conversationIds of
                      [] \<Rightarrow> - 1
                    | first # _ \<Rightarrow> findIndex (\<lambda>c. c_id c = first) conversations);
          es = concat (map (\<lambda>conversationId.
                  case find (\<lambda>c. c_id c = conversationId) conversations of
                    None \<Rightarrow> []
                  | Some c \<Rightarrow> abortOf c) conversationIds);
          remaining = filter (\<lambda>c. c_id c \<notin> set conversationIds) conversations;
          newConversations =
            (if remaining = [] then [createDConversation env newConversationPersonaId k]
             else remaining)
      in (newConversations,
          c_id (newConversations !
                  (if 0 \<le> cIndex \<and> cIndex < int (length newConversations) then nat cIndex else 0)),
          es))"

text \<open>
  Modelled from the spec: \<^verbatim>\<open>duplicateCConversation\<close> of \<^verbatim>\<open>chat.conversation\<close>, which is
  not part of the sources. The spec: a structural duplicate including all messages up to
  and including the given message (or the full conversation if none is given), with freshly
  generated conversation and message identifiers. The duplicate has no operation in
  flight, so its controller is \<^verbatim>\<open>null\<close>. The namespace given to the generator for a
  message is a label only.
\<close>

fun uptoIncluding :: "DMessageId \<Rightarrow> DMessage list \<Rightarrow> DMessage list" where
  "uptoIncluding lastMessageId [] = []"
| "uptoIncluding lastMessageId (m # ms) =
     (if m_id m = lastMessageId then [m] else m # uptoIncluding lastMessageId ms)"

fun duplicateMessages :: "Env \<Rightarrow> nat \<Rightarrow> DMessage list \<Rightarrow> DMessage list" where
  "duplicateMessages env k [] = []"
| "duplicateMessages env k (m # ms) =
     m\<lparr>m_id := agiUuid env ''chat-dmessage'' k\<rparr> # duplicateMessages env (Suc k) ms"

definition duplicateCConversation ::
  "Env \<Rightarrow> nat \<Rightarrow> DConversation \<Rightarrow> DMessageId option \<Rightarrow> DConversation" where
  "duplicateCConversation env k conversation lastMessageId =
     conversation\<lparr>
       c_id := agiUuid env ''chat-dconversation'' k,
       c_messages := duplicateMessages env (Suc k)
         (case lastMessageId of
            None \<Rightarrow> c_messages conversation
          | Some mId \<Rightarrow> uptoIncluding mId (c_messages conversation)),
       c_abortController := None\<rparr>"

text \<open>\<^verbatim>\<open>messageId ?? undefined\<close> turns \<^verbatim>\<open>null\<close> into \<^verbatim>\<open>undefined\<close>: both are \<^verbatim>\<open>None\<close>.\<close>

definition branchConversation ::
  "Env \<Rightarrow> nat \<Rightarrow> DConversationId \<Rightarrow> DMessageId option \<Rightarrow> DConversation list \<Rightarrow>
   DConversation list \<times> DConversationId option" where
  "branchConversation env k conversationId messageId conversations =
     (case find (\<lambda>c. c_id c = conversationId) conversations of
        None \<Rightarrow> (conversations, None)
      | Some conversation \<Rightarrow>
          (let branched = duplicateCConversation env k conversation messageId in
           (branched # conversations, Some (c_id branched))))"

subsection \<open>Persistence\<close>

text \<open>
  \<^verbatim>\<open>partialize\<close>: \<^verbatim>\<open>const { abortController, ...rest } = conversation; return rest\<close>.
\<close>

definition partialize :: "DConversation list \<Rightarrow> DConversationStored list" where
  "partialize conversations =
     map (\<lambda>conversation.
        \<lparr>c_id = c_id conversation,
         c_messages = c_messages conversation,
         c_systemPurposeId = c_systemPurposeId conversation,
         c_userTitle = c_userTitle conversation,
         c_autoTitle = c_autoTitle conversation,
         c_userSymbol = c_userSymbol conversation,
         c_tokenCount = c_tokenCount conversation,
         c_updated = c_updated conversation\<rparr>) conversations"

text \<open>A loop whose body may draw identifiers: the counter goes from one round to the next.\<close>

fun mapCount :: "(nat \<Rightarrow> 'a \<Rightarrow> 'b \<times> nat) \<Rightarrow> nat \<Rightarrow> 'a list \<Rightarrow> 'b list \<times> nat" where
  "mapCount f k [] = ([], k)"
| "mapCount f k (x # xs) =
     (case f k x of (y, k') \<Rightarrow>
        (case mapCount f k' xs of (ys, k'') \<Rightarrow> (y # ys, k'')))"

text \<open>
  Modelled from the spec: the predicates \<^verbatim>\<open>isContentFragment\<close> and \<^verbatim>\<open>isImageRefPart\<close> of
  \<^verbatim>\<open>chat.fragments\<close> test the discriminants of a fragment and of a part.
\<close>

definition isContentFragment :: "DMessageFragment \<Rightarrow> bool" where
  "isContentFragment fragment = (ft fragment = FtContent)"

text \<open>
  The body of the loop over the fragments in \<^verbatim>\<open>onRehydrateStorage\<close>: the rename of
  \<^verbatim>\<open>dblobId\<close>, then the missing \<^verbatim>\<open>fId\<close>.
\<close>

definition fixupFragment :: "Env \<Rightarrow> nat \<Rightarrow> DMessageFragment \<Rightarrow> DMessageFragment \<times> nat" where
  "fixupFragment env k fragment =
     (let renamed =
            (case part fragment of
               ImageRefPart dataRef \<Rightarrow>
                 if isContentFragment fragment \<and> reftype dataRef = ''dblob''
                    \<and> \<not> falsyString (dblobId dataRef)
                 then fragment\<lparr>part :=
                        ImageRefPart (dataRef\<lparr>dblobAssetId := dblobId dataRef, dblobId := None\<rparr>)\<rparr>
                 else fragment
             | _ \<Rightarrow> fragment)
      in if falsyString (fId renamed)
         then (renamed\<lparr>fId := Some (agiId env ''chat-dfragment'' k)\<rparr>, Suc k)
         else (renamed, k))"

text \<open>The callback of the \<^verbatim>\<open>map\<close> that turns placeholders into error fragments.\<close>

definition replacePlaceholder :: "Env \<Rightarrow> nat \<Rightarrow> DMessageFragment \<Rightarrow> DMessageFragment \<times> nat" where
  "replacePlaceholder env k fragment =
     (case part fragment of
        PlaceholderPart pText \<Rightarrow>
          if isContentFragment fragment
          then (createErrorContentFragment env (pText @ '' (did not complete)'') k, Suc k)
          else (fragment, k)
      | _ \<Rightarrow> (fragment, k))"

definition fixupMessage :: "Env \<Rightarrow> nat \<Rightarrow> DMessage \<Rightarrow> DMessage \<times> nat" where
  "fixupMessage env k message =
     (case mapCount (fixupFragment env) k (m_fragments message) of
        (fixed, k') \<Rightarrow>
          (case mapCount (replacePlaceholder env) k' fixed of
             (replaced, k'') \<Rightarrow>
               (message\<lparr>m_fragments := replaced, m_pendingIncomplete := None, m_typing := None\<rparr>,
                k'')))"

definition fixupConversation ::
  "Env \<Rightarrow> nat \<Rightarrow> DConversationStored \<Rightarrow> DConversation \<times> nat" where
  "fixupConversation env k conversation =
     (case mapCount (fixupMessage env) k (c_messages conversation) of
        (messages, k') \<Rightarrow>
          (\<lparr>c_id = c_id conversation,
            c_messages = messages,
            c_systemPurposeId = c_systemPurposeId conversation,
            c_userTitle = c_userTitle conversation,
            c_autoTitle = c_autoTitle conversation,
            c_userSymbol = c_userSymbol conversation,
            c_tokenCount = c_tokenCount conversation,
            c_updated = c_updated conversation,
            c_abortController = None\<rparr>,
           k'))"

text \<open>
  \<^verbatim>\<open>onRehydrateStorage\<close>: the state after the callback, \<^verbatim>\<open>None\<close> when there is no
  state. The state that is loaded is the persisted one, without controllers.
\<close>

definition onRehydrateStorage ::
  "Env \<Rightarrow> nat \<Rightarrow> DConversationStored list option \<Rightarrow> DConversation list option" where
  "onRehydrateStorage env k state =
     (case state of
        None \<Rightarrow> None
      | Some conversations \<Rightarrow> Some (fst (mapCount (fixupConversation env) k conversations)))"

text \<open>A fragment has an id when \<^verbatim>\<open>fragment.fId\<close> is truthy: present and not empty.\<close>

definition hasFragmentId :: "DMessageFragment \<Rightarrow> bool" where
  "hasFragmentId fragment = (\<not> falsyString (fId fragment))"

subsection \<open>Sequences of calls on one conversation\<close>

datatype MessageCall = AppendCall Env DMessage | DeleteCall Env DMessageId

fun runCall :: "DConversationId \<Rightarrow> MessageCall \<Rightarrow> DConversation list \<Rightarrow> DConversation list" where
  "runCall cId (AppendCall env message) conversations =
     fst (appendMessage env cId message conversations)"
| "runCall cId (DeleteCall env messageId) conversations =
     fst (deleteMessage env cId messageId conversations)"

definition runCalls ::
  "DConversationId \<Rightarrow> MessageCall list \<Rightarrow> DConversation list \<Rightarrow> DConversation list" where
  "runCalls cId calls conversations = foldl (\<lambda>cs call. runCall cId call cs) conversations calls"

subsection \<open>Sample values\<close>

text \<open>
  An environment in which the model \<^verbatim>\<open>gpt\<close> is the default and is registered, the
  estimator counts five tokens a fragment, and identifiers count the earlier calls.
\<close>

definition sampleConversation :: "DConversationId \<Rightarrow> DMessage list \<Rightarrow> int \<Rightarrow> DConversation" where
  "sampleConversation cId messages n =
     \<lparr>c_id = cId, c_messages = messages, c_systemPurposeId = ''Generic'',
      c_userTitle = None, c_autoTitle = Some ''title'', c_userSymbol = None,
      c_tokenCount = n, c_updated = Some 1, c_abortController = Some 7\<rparr>"

definition sampleEnv :: Env where
  "sampleEnv =
     \<lparr>getChatLLMId = Some ''gpt'',
      findLLMOrThrow = (\<lambda>llmId. if llmId = ''gpt'' then Some (DLLM ''gpt'') else None),
      estimateTokensForFragments = (\<lambda>fragments dllm b debugFrom. Some (5 * int (length fragments))),
      dateNow = 1000,
      agiId = (\<lambda>namespace k. namespace @ replicate (Suc k) CHR ''i''),
      agiUuid = (\<lambda>namespace k. namespace @ replicate (Suc k) CHR ''u''),
      createDConversation = (\<lambda>personaId k.
        (sampleConversation (''chat-dconversation'' @ replicate (Suc k) CHR ''u'') [] 0)
          \<lparr>c_systemPurposeId := (case personaId of None \<Rightarrow> ''Generic'' | Some p \<Rightarrow> p),
           c_autoTitle := None, c_abortController := None\<rparr>),
      createErrorContentFragment = (\<lambda>error k.
        \<lparr>ft = FtContent, fId = Some (''chat-dfragment'' @ replicate (Suc k) CHR ''e''),
         part = ErrorPart error\<rparr>)\<rparr>"

definition sampleFragment :: "string option \<Rightarrow> DMessagePart \<Rightarrow> DMessageFragment" where
  "sampleFragment fragmentId p = \<lparr>ft = FtContent, fId = fragmentId, part = p\<rparr>"

definition sampleMessage :: "DMessageId \<Rightarrow> DMessageFragment list \<Rightarrow> int \<Rightarrow> DMessage" where
  "sampleMessage mId fragments n =
     \<lparr>m_id = mId, m_fragments = fragments, m_pendingIncomplete = None, m_typing = None,
      m_tokenCount = n, m_updated = Some 1\<rparr>"

section \<open>Properties\<close>

subsection \<open>Evaluation and the shape of the loops\<close>

lemmas sample_defs = sampleEnv_def sampleConversation_def sampleMessage_def sampleFragment_def

lemmas token_defs = updateMessagesTokenCounts_def updateMessageTokenCount_def foldTokenCount_def
  orZero_def falsyBool_def falsyString_def

lemma orZero_id: "orZero x = x"
  by (simp add: orZero_def)

lemma foldl_token_acc:
  "foldl (\<lambda>acc message. orZero (acc + 4 + m_tokenCount message)) a ms
     = a + (\<Sum>m\<leftarrow>ms. 4 + m_tokenCount m)"
  by (induction ms arbitrary: a) (simp_all add: orZero_id)

lemma foldTokenCount_sum:
  "foldTokenCount ms = 3 + (\<Sum>m\<leftarrow>ms. 4 + m_tokenCount m)"
  by (simp add: foldTokenCount_def foldl_token_acc)

lemma fst_mapEvents: "fst (mapEvents f xs) = map (\<lambda>x. fst (f x)) xs"
  by (induction xs) (simp_all add: case_prod_beta)

lemma snd_mapEvents: "snd (mapEvents f xs) = concat (map (\<lambda>x. snd (f x)) xs)"
  by (induction xs) (simp_all add: case_prod_beta)

lemma fst_editConversation:
  "fst (editConversation cId update cs) =
     map (\<lambda>c. if c_id c = cId then fst (update c) else c) cs"
  by (simp add: editConversation_def fst_mapEvents if_distrib cong: if_cong)

lemma updateMessageTokenCount_returns_stored:
  "fst (snd (updateMessageTokenCount env m llm force dbg))
     = m_tokenCount (fst (updateMessageTokenCount env m llm force dbg))"
  by (simp add: updateMessageTokenCount_def split: option.splits)

lemma updateMessageTokenCount_unforced:
  "updateMessageTokenCount env m llm False dbg =
     (if m_tokenCount m \<noteq> 0 then (m, m_tokenCount m, [])
      else updateMessageTokenCount env m llm True dbg)"
  by (simp add: updateMessageTokenCount_def)

lemma fst_reduceTokenCounts:
  "fst (reduceTokenCounts env llm force dbg ms a) =
     map (\<lambda>m. fst (updateMessageTokenCount env m llm force dbg)) ms"
  by (induction ms arbitrary: a) (simp_all add: case_prod_beta)

lemma total_reduceTokenCounts:
  "fst (snd (reduceTokenCounts env llm force dbg ms a)) =
     a + (\<Sum>m\<leftarrow>ms. 4 + fst (snd (updateMessageTokenCount env m llm force dbg)))"
  by (induction ms arbitrary: a) (simp_all add: case_prod_beta)

lemma fst_updateMessagesTokenCounts:
  "fst (updateMessagesTokenCounts env ms force dbg) =
     map (\<lambda>m. fst (updateMessageTokenCount env m (getChatLLMId env) force dbg)) ms"
  by (simp add: updateMessagesTokenCounts_def fst_reduceTokenCounts case_prod_beta Let_def)

lemma total_updateMessagesTokenCounts:
  "fst (snd (updateMessagesTokenCounts env ms force dbg)) =
     3 + (\<Sum>m\<leftarrow>fst (updateMessagesTokenCounts env ms force dbg). 4 + m_tokenCount m)"
  by (simp add: updateMessagesTokenCounts_def fst_reduceTokenCounts total_reduceTokenCounts
      case_prod_beta Let_def updateMessageTokenCount_returns_stored o_def)


lemma snd_editConversation:
  "snd (editConversation cId update cs) =
     concat (map (\<lambda>c. if c_id c = cId then snd (update c) else []) cs)"
  by (simp add: editConversation_def snd_mapEvents if_distrib cong: if_cong)


lemma fst_appendMessage:
  "fst (appendMessage env cId message cs) =
     map (\<lambda>c. if c_id c = cId
        then c\<lparr>c_messages := c_messages c @
                 [if falsyBool (m_pendingIncomplete message)
                  then fst (updateMessageTokenCount env message (getChatLLMId env) True ''appendMessage'')
                  else message],
               c_tokenCount := foldTokenCount (c_messages c @
                 [if falsyBool (m_pendingIncomplete message)
                  then fst (updateMessageTokenCount env message (getChatLLMId env) True ''appendMessage'')
                  else message]),
               c_updated := Some (dateNow env)\<rparr>
        else c) cs"
  unfolding appendMessage_def fst_editConversation
  apply (rule map_cong[OF refl])
  apply (simp add: case_prod_beta Let_def fst_updateMessagesTokenCounts)
  done

lemma fst_deleteMessage:
  "fst (deleteMessage env cId mId cs) =
     map (\<lambda>c. if c_id c = cId
        then c\<lparr>c_messages := filter (\<lambda>m. m_id m \<noteq> mId) (c_messages c),
               c_tokenCount := foldTokenCount (filter (\<lambda>m. m_id m \<noteq> mId) (c_messages c)),
               c_updated := Some (dateNow env)\<rparr>
        else c) cs"
  unfolding deleteMessage_def fst_editConversation
  by (simp add: Let_def)

lemma snd_deleteMessage: "snd (deleteMessage env cId mId cs) = []"
  unfolding deleteMessage_def snd_editConversation
  by (auto simp: Let_def)

lemma editConversation_establishes:
  assumes "\<And>c0. P (fst (update c0))"
    and "c \<in> set (fst (editConversation cId update cs))" and "c_id c = cId"
  shows "P c"
  using assms by (auto simp: fst_editConversation split: if_splits)

lemma appendMessage_member:
  assumes "c \<in> set (fst (appendMessage env cId message cs))" and "c_id c = cId"
  shows "c_tokenCount c = foldTokenCount (c_messages c)"
  by (rule editConversation_establishes
        [where P = "\<lambda>c. c_tokenCount c = foldTokenCount (c_messages c)",
         OF _ assms(1)[unfolded appendMessage_def] assms(2)])
     (simp add: case_prod_beta Let_def)

lemma deleteMessage_member:
  assumes "c \<in> set (fst (deleteMessage env cId mId cs))" and "c_id c = cId"
  shows "c_tokenCount c = foldTokenCount (c_messages c)"
  by (rule editConversation_establishes
        [where P = "\<lambda>c. c_tokenCount c = foldTokenCount (c_messages c)",
         OF _ assms(1)[unfolded deleteMessage_def] assms(2)])
     (simp add: Let_def)

lemma runCall_invariant:
  assumes "c \<in> set (runCall cId call cs)" and "c_id c = cId"
  shows "c_tokenCount c = foldTokenCount (c_messages c)"
  using assms by (cases call) (simp_all add: appendMessage_member deleteMessage_member)

text \<open>
  The two calls keep the conversations of the store and their ids, so each conversation
  with the id is still in the store after the sequence.
\<close>

lemma runCall_ids: "map c_id (runCall cId call cs) = map c_id cs"
  by (cases call) (simp_all add: fst_appendMessage fst_deleteMessage o_def if_distrib cong: if_cong)

lemma runCalls_ids: "map c_id (runCalls cId calls cs) = map c_id cs"
  unfolding runCalls_def
  by (induction calls arbitrary: cs) (simp_all add: runCall_ids)

text \<open>
  C2. After every call of a non-empty sequence of \<^verbatim>\<open>appendMessage\<close> and
  \<^verbatim>\<open>deleteMessage\<close> calls on a conversation id, each conversation of the store with that
  id has \<^verbatim>\<open>tokenCount\<close> equal to 3 plus the sum over its messages of 4 plus the message's
  \<^verbatim>\<open>tokenCount\<close>. Every non-empty prefix of a sequence is a non-empty sequence, so the
  statement about the last call covers each call.
\<close>

theorem tokenCount_fold_invariant:
  assumes "calls \<noteq> []"
    and "c \<in> set (runCalls cId calls conversations)"
    and "c_id c = cId"
  shows "c_tokenCount c = 3 + (\<Sum>m\<leftarrow>c_messages c. 4 + m_tokenCount m)"
proof -
  from assms(1) obtain earlier call where "calls = earlier @ [call]"
    by (cases calls rule: rev_cases) auto
  then have "runCalls cId calls conversations = runCall cId call (runCalls cId earlier conversations)"
    by (simp add: runCalls_def)
  with assms(2,3) have "c_tokenCount c = foldTokenCount (c_messages c)"
    by (simp add: runCall_invariant)
  then show ?thesis
    by (simp add: foldTokenCount_sum)
qed

text \<open>
  C2 at a store with one conversation whose count is stale: after an append and a delete
  the count is 12, which is 3 + (4 + 5) for the one message that is left.
\<close>

theorem tokenCount_fold_invariant_witness:
  "hd (runCalls ''c1''
         [AppendCall sampleEnv (sampleMessage ''m2'' [sampleFragment (Some ''f1'') (TextPart ''hi'')] 0),
          DeleteCall sampleEnv ''m1'']
         [sampleConversation ''c1'' [sampleMessage ''m1'' [] 9] 0])
     = (sampleConversation ''c1''
          [sampleMessage ''m2'' [sampleFragment (Some ''f1'') (TextPart ''hi'')] 5] 12)
         \<lparr>c_updated := Some 1000\<rparr>
   \<and> c_tokenCount (hd (runCalls ''c1''
         [AppendCall sampleEnv (sampleMessage ''m2'' [sampleFragment (Some ''f1'') (TextPart ''hi'')] 0),
          DeleteCall sampleEnv ''m1'']
         [sampleConversation ''c1'' [sampleMessage ''m1'' [] 9] 0]))
     = 3 + (\<Sum>m\<leftarrow>c_messages (hd (runCalls ''c1''
         [AppendCall sampleEnv (sampleMessage ''m2'' [sampleFragment (Some ''f1'') (TextPart ''hi'')] 0),
          DeleteCall sampleEnv ''m1'']
         [sampleConversation ''c1'' [sampleMessage ''m1'' [] 9] 0])). 4 + m_tokenCount m)"
proof -
  let ?calls = "[AppendCall sampleEnv (sampleMessage ''m2'' [sampleFragment (Some ''f1'') (TextPart ''hi'')] 0),
          DeleteCall sampleEnv ''m1'']"
  let ?store = "[sampleConversation ''c1'' [sampleMessage ''m1'' [] 9] 0]"
  have run: "runCalls ''c1'' ?calls ?store
      = [(sampleConversation ''c1''
            [sampleMessage ''m2'' [sampleFragment (Some ''f1'') (TextPart ''hi'')] 5] 12)
           \<lparr>c_updated := Some 1000\<rparr>]"
    by (simp add: runCalls_def appendMessage_def deleteMessage_def editConversation_def
        sample_defs token_defs Let_def)
  have nonempty: "?calls \<noteq> []" by simp
  have member: "hd (runCalls ''c1'' ?calls ?store) \<in> set (runCalls ''c1'' ?calls ?store)"
    by (simp add: run)
  have ident: "c_id (hd (runCalls ''c1'' ?calls ?store)) = ''c1''"
    unfolding run by (simp add: sampleConversation_def)
  from tokenCount_fold_invariant [OF nonempty member ident] show ?thesis
    unfolding run by simp
qed

subsection \<open>Messages of one conversation\<close>

lemma updateMessageTokenCount_message:
  "fst (updateMessageTokenCount env m llm force dbg)
     = m\<lparr>m_tokenCount := fst (snd (updateMessageTokenCount env m llm force dbg))\<rparr>"
  by (simp add: updateMessageTokenCount_def split: option.splits)


lemma deleteMessage_exact:
  assumes "\<forall>c\<in>set conversations. c_id c = cId \<longrightarrow> (\<forall>m\<in>set (c_messages c). m_id m \<noteq> mId)"
  shows "deleteMessage env cId mId conversations =
     (map (\<lambda>c. if c_id c = cId
                then c\<lparr>c_tokenCount := foldTokenCount (c_messages c),
                       c_updated := Some (dateNow env)\<rparr>
                else c) conversations, [])"
proof -
  have keep: "filter (\<lambda>m. m_id m \<noteq> mId) (c_messages c) = c_messages c"
    if "c \<in> set conversations" and "c_id c = cId" for c
    using that assms by (simp add: filter_id_conv)
  have "fst (deleteMessage env cId mId conversations) =
     map (\<lambda>c. if c_id c = cId
                then c\<lparr>c_tokenCount := foldTokenCount (c_messages c),
                       c_updated := Some (dateNow env)\<rparr>
                else c) conversations"
    unfolding fst_deleteMessage
    by (rule map_cong[OF refl]) (simp add: keep)
  then show ?thesis
    by (simp add: prod_eq_iff snd_deleteMessage)
qed






text \<open>
  C10. When the message id occurs in no conversation with the given id, \<^verbatim>\<open>deleteMessage\<close>
  keeps every message list and writes nothing to the console, and still sets, in each
  conversation with that id, \<^verbatim>\<open>updated\<close> to the current time and \<^verbatim>\<open>tokenCount\<close> to the
  fold over the cached counts of its messages.
\<close>

theorem deleteMessage_missing_id:
  assumes "\<forall>c\<in>set conversations. c_id c = cId \<longrightarrow> (\<forall>m\<in>set (c_messages c). m_id m \<noteq> mId)"
  shows "deleteMessage env cId mId conversations =
     (map (\<lambda>c. if c_id c = cId
                then c\<lparr>c_tokenCount := 3 + (\<Sum>m\<leftarrow>c_messages c. 4 + m_tokenCount m),
                       c_updated := Some (dateNow env)\<rparr>
                else c) conversations, [])"
  using deleteMessage_exact [OF assms] by (simp add: foldTokenCount_sum)

text \<open>
  C10 at a conversation with the stale count 0: the call changes the record.
\<close>

theorem deleteMessage_missing_id_witness:
  "deleteMessage sampleEnv ''c1'' ''m5'' [sampleConversation ''c1'' [sampleMessage ''m1'' [] 9] 0]
     = ([(sampleConversation ''c1'' [sampleMessage ''m1'' [] 9] 16)\<lparr>c_updated := Some 1000\<rparr>], [])
   \<and> fst (deleteMessage sampleEnv ''c1'' ''m5'' [sampleConversation ''c1'' [sampleMessage ''m1'' [] 9] 0])
     \<noteq> [sampleConversation ''c1'' [sampleMessage ''m1'' [] 9] 0]"
  using deleteMessage_missing_id
    [of "[sampleConversation ''c1'' [sampleMessage ''m1'' [] 9] 0]" "''c1''" "''m5''" sampleEnv]
  by (simp add: sample_defs)


lemma fst_setMessages:
  "fst (setMessages env cId newMessages conversations) =
     map (\<lambda>c. if c_id c = cId
        then c\<lparr>c_messages := fst (updateMessagesTokenCounts env newMessages False ''setMessages''),
               c_autoTitle := (if newMessages \<noteq> [] then c_autoTitle c else None),
               c_tokenCount := fst (snd (updateMessagesTokenCounts env newMessages False ''setMessages'')),
               c_updated := Some (dateNow env),
               c_abortController := None\<rparr>
        else c) conversations"
  unfolding setMessages_def fst_editConversation
  by (rule map_cong[OF refl]) (simp add: case_prod_beta)

text \<open>
  C1, as amended. \<^verbatim>\<open>setMessages\<close> passes \<^verbatim>\<open>forceUpdate = false\<close>: a message of the new
  list whose cached count is not 0 keeps it, and only a message whose cached count is 0 has
  its count derived as a forced update derives it. The aggregate count of the conversation
  is 3 plus the sum over the new list of 4 plus the resulting count.
\<close>

theorem setMessages_reuses_cached_counts:
  "fst (setMessages env cId newMessages conversations) =
     map (\<lambda>c. if c_id c = cId
        then c\<lparr>c_messages :=
                 map (\<lambda>m. if m_tokenCount m \<noteq> 0 then m
                           else fst (updateMessageTokenCount env m (getChatLLMId env) True ''setMessages''))
                   newMessages,
               c_autoTitle := (if newMessages \<noteq> [] then c_autoTitle c else None),
               c_tokenCount :=
                 3 + (\<Sum>m\<leftarrow>newMessages. 4 +
                        (if m_tokenCount m \<noteq> 0 then m_tokenCount m
                         else fst (snd (updateMessageTokenCount env m (getChatLLMId env) True
                                          ''setMessages'')))),
               c_updated := Some (dateNow env),
               c_abortController := None\<rparr>
        else c) conversations"
proof -
  have messages: "fst (updateMessagesTokenCounts env newMessages False ''setMessages'') =
      map (\<lambda>m. if m_tokenCount m \<noteq> 0 then m
                else fst (updateMessageTokenCount env m (getChatLLMId env) True ''setMessages''))
        newMessages"
    unfolding fst_updateMessagesTokenCounts
    by (rule map_cong[OF refl]) (simp add: updateMessageTokenCount_unforced)
  have count: "fst (snd (updateMessagesTokenCounts env newMessages False ''setMessages'')) =
      3 + (\<Sum>m\<leftarrow>newMessages. 4 +
             (if m_tokenCount m \<noteq> 0 then m_tokenCount m
              else fst (snd (updateMessageTokenCount env m (getChatLLMId env) True ''setMessages''))))"
    unfolding total_updateMessagesTokenCounts messages
    by (simp add: o_def if_distrib updateMessageTokenCount_returns_stored cong: if_cong)
  show ?thesis
    unfolding fst_setMessages messages count ..
qed

text \<open>
  C1, the amended statement at a list of two messages with the cached counts 7 and 0: the
  first keeps 7, the second gets 5, the aggregate is 3 + (4 + 7) + (4 + 5).
\<close>

theorem setMessages_reuses_cached_counts_witness:
  "fst (setMessages sampleEnv ''c1''
          [sampleMessage ''m1'' [sampleFragment (Some ''f1'') (TextPart ''hi'')] 7,
           sampleMessage ''m2'' [sampleFragment (Some ''f2'') (TextPart ''yo'')] 0]
          [sampleConversation ''c1'' [] 0, sampleConversation ''c2'' [] 0])
     = [(sampleConversation ''c1''
           [sampleMessage ''m1'' [sampleFragment (Some ''f1'') (TextPart ''hi'')] 7,
            sampleMessage ''m2'' [sampleFragment (Some ''f2'') (TextPart ''yo'')] 5] 23)
          \<lparr>c_updated := Some 1000, c_abortController := None\<rparr>,
        sampleConversation ''c2'' [] 0]"
  using setMessages_reuses_cached_counts
    [of sampleEnv "''c1''"
        "[sampleMessage ''m1'' [sampleFragment (Some ''f1'') (TextPart ''hi'')] 7,
          sampleMessage ''m2'' [sampleFragment (Some ''f2'') (TextPart ''yo'')] 0]"
        "[sampleConversation ''c1'' [] 0, sampleConversation ''c2'' [] 0]"]
  by (simp add: sample_defs updateMessageTokenCount_def)

text \<open>
  C1 as stated fails at a message with the cached count 7 and one fragment, which the
  estimator counts as 5: neither the aggregate count nor the stored messages are the ones
  of a forced update.
\<close>

theorem setMessages_forced_counterexample:
  "map c_tokenCount
     (fst (setMessages sampleEnv ''c1''
             [sampleMessage ''m1'' [sampleFragment (Some ''f1'') (TextPart ''hi'')] 7]
             [sampleConversation ''c1'' [] 0]))
     \<noteq> [fst (snd (updateMessagesTokenCounts sampleEnv
                     [sampleMessage ''m1'' [sampleFragment (Some ''f1'') (TextPart ''hi'')] 7]
                     True ''setMessages''))]
   \<and> map c_messages
     (fst (setMessages sampleEnv ''c1''
             [sampleMessage ''m1'' [sampleFragment (Some ''f1'') (TextPart ''hi'')] 7]
             [sampleConversation ''c1'' [] 0]))
     \<noteq> [fst (updateMessagesTokenCounts sampleEnv
                [sampleMessage ''m1'' [sampleFragment (Some ''f1'') (TextPart ''hi'')] 7]
                True ''setMessages'')]"
  by (simp add: setMessages_def editConversation_def sample_defs token_defs Let_def)


subsection \<open>Token count of one message\<close>




subsection \<open>Deleting conversations\<close>

text \<open>
  C4. The list after \<^verbatim>\<open>deleteConversations\<close> is never empty, whatever the list before
  and the ids: when no conversation remains it is the one conversation that
  \<^verbatim>\<open>createDConversation\<close> makes for the given persona id, otherwise it is the
  conversations whose ids are not named.
\<close>

theorem deleteConversations_never_empty:
  "fst (deleteConversations env k conversationIds personaId conversations) \<noteq> []
   \<and> (filter (\<lambda>c. c_id c \<notin> set conversationIds) conversations = [] \<longrightarrow>
        fst (deleteConversations env k conversationIds personaId conversations)
          = [createDConversation env personaId k])
   \<and> (filter (\<lambda>c. c_id c \<notin> set conversationIds) conversations \<noteq> [] \<longrightarrow>
        fst (deleteConversations env k conversationIds personaId conversations)
          = filter (\<lambda>c. c_id c \<notin> set conversationIds) conversations)"
  by (simp add: deleteConversations_def Let_def)

text \<open>
  The index that \<^verbatim>\<open>deleteConversations\<close> reads is always in range: the id it returns is
  the id of a conversation of the new list.
\<close>

lemma deleteConversations_returns_member:
  "fst (snd (deleteConversations env k conversationIds personaId conversations))
     \<in> c_id ` set (fst (deleteConversations env k conversationIds personaId conversations))"
proof -
  define cIndex where "cIndex = (case conversationIds of
      [] \<Rightarrow> - 1 | first # _ \<Rightarrow> findIndex (\<lambda>c. c_id c = first) conversations)"
  define new where "new = fst (deleteConversations env k conversationIds personaId conversations)"
  define i where "i = (if 0 \<le> cIndex \<and> cIndex < int (length new) then nat cIndex else 0)"
  have "new \<noteq> []"
    by (simp add: new_def deleteConversations_def Let_def)
  then have "i < length new"
    by (auto simp: i_def)
  then have "c_id (new ! i) \<in> c_id ` set new"
    by simp
  moreover have "fst (snd (deleteConversations env k conversationIds personaId conversations))
      = c_id (new ! i)"
    by (simp add: new_def i_def cIndex_def deleteConversations_def Let_def)
  ultimately show ?thesis
    by (simp add: new_def)
qed

text \<open>
  C4 at a store of two conversations: deleting both leaves the fresh conversation for the
  persona \<^verbatim>\<open>Developer\<close>, deleting the first leaves the second.
\<close>

theorem deleteConversations_never_empty_witness:
  "deleteConversations sampleEnv 0 [''c1'', ''c2''] (Some ''Developer'')
      [sampleConversation ''c1'' [] 3, sampleConversation ''c2'' [] 3]
     = ([(sampleConversation ''chat-dconversationu'' [] 0)
           \<lparr>c_systemPurposeId := ''Developer'', c_autoTitle := None, c_abortController := None\<rparr>],
        ''chat-dconversationu'', [Abort 7, Abort 7])
   \<and> fst (deleteConversations sampleEnv 0 [''c1''] None
      [sampleConversation ''c1'' [] 3, sampleConversation ''c2'' [] 3])
     = [sampleConversation ''c2'' [] 3]"
proof -
  let ?store = "[sampleConversation ''c1'' [] 3, sampleConversation ''c2'' [] 3]"
  have all: "filter (\<lambda>c. c_id c \<notin> set [''c1'', ''c2'']) ?store = []"
    by (simp add: sampleConversation_def)
  have one: "filter (\<lambda>c. c_id c \<notin> set [''c1'']) ?store = [sampleConversation ''c2'' [] 3]"
    by (simp add: sampleConversation_def)
  from deleteConversations_never_empty [of sampleEnv 0 "[''c1'', ''c2'']" "Some ''Developer''" ?store] all
  have new: "fst (deleteConversations sampleEnv 0 [''c1'', ''c2''] (Some ''Developer'') ?store)
      = [createDConversation sampleEnv (Some ''Developer'') 0]"
    by blast
  have rest: "snd (deleteConversations sampleEnv 0 [''c1'', ''c2''] (Some ''Developer'') ?store)
      = (''chat-dconversationu'', [Abort 7, Abort 7])"
    by (simp add: deleteConversations_def Let_def sample_defs findIndex_def abortOf_def)
  from deleteConversations_never_empty [of sampleEnv 0 "[''c1'']" None ?store] one
  have kept: "fst (deleteConversations sampleEnv 0 [''c1''] None ?store) = [sampleConversation ''c2'' [] 3]"
    by simp
  from new rest kept show ?thesis
    by (simp add: prod_eq_iff sample_defs)
qed


subsection \<open>Replacing a fragment that is not there\<close>

lemma findIndexFrom_negative:
  "0 \<le> i \<Longrightarrow> (findIndexFrom p xs i < 0) = (\<forall>x\<in>set xs. \<not> p x)"
  by (induction xs arbitrary: i) auto

lemma findIndex_negative: "(findIndex p xs < 0) = (\<forall>x\<in>set xs. \<not> p x)"
  by (simp add: findIndex_def findIndexFrom_negative)

lemma replaceFragmentUpdate_missing:
  assumes "\<forall>f\<in>set (m_fragments m). fId f \<noteq> Some fragmentId"
  shows "replaceFragmentUpdate fragmentId newFragment m =
     (\<lambda>m. m, [ConsoleError [''replaceFragment: fragment not found for ID '' @ fragmentId]])"
  using assms by (simp add: replaceFragmentUpdate_def Let_def findIndex_negative)

lemma updateMessageTokenCount_fragments:
  "m_fragments (fst (updateMessageTokenCount env m llm force dbg)) = m_fragments m"
  by (subst updateMessageTokenCount_message) simp

lemma updateMessageTokenCount_updated:
  "m_updated (fst (updateMessageTokenCount env m llm force dbg)) = m_updated m"
  by (subst updateMessageTokenCount_message) simp

lemma editOneMessage_missing_fragment:
  assumes "m_id m = mId \<longrightarrow> (\<forall>f\<in>set (m_fragments m). fId f \<noteq> Some fragmentId)"
  shows "m_fragments (fst (editOneMessage env mId (replaceFragmentUpdate fragmentId newFragment)
            removePendingState touchUpdated m)) = m_fragments m"
    and "m_updated (fst (editOneMessage env mId (replaceFragmentUpdate fragmentId newFragment)
            removePendingState touchUpdated m))
         = (if touchUpdated \<and> m_id m = mId then Some (dateNow env) else m_updated m)"
proof -
  show "m_fragments (fst (editOneMessage env mId (replaceFragmentUpdate fragmentId newFragment)
            removePendingState touchUpdated m)) = m_fragments m"
  proof (cases "m_id m = mId")
    case True
    with assms have "replaceFragmentUpdate fragmentId newFragment m =
        (\<lambda>m. m, [ConsoleError [''replaceFragment: fragment not found for ID '' @ fragmentId]])"
      by (simp add: replaceFragmentUpdate_missing)
    with True show ?thesis
      by (simp add: editOneMessage_def Let_def case_prod_beta updateMessageTokenCount_fragments)
  next
    case False
    then show ?thesis by (simp add: editOneMessage_def)
  qed
  show "m_updated (fst (editOneMessage env mId (replaceFragmentUpdate fragmentId newFragment)
            removePendingState touchUpdated m))
         = (if touchUpdated \<and> m_id m = mId then Some (dateNow env) else m_updated m)"
  proof (cases "m_id m = mId")
    case True
    with assms have "replaceFragmentUpdate fragmentId newFragment m =
        (\<lambda>m. m, [ConsoleError [''replaceFragment: fragment not found for ID '' @ fragmentId]])"
      by (simp add: replaceFragmentUpdate_missing)
    with True show ?thesis
      by (simp add: editOneMessage_def Let_def case_prod_beta updateMessageTokenCount_updated)
  next
    case False
    then show ?thesis by (simp add: editOneMessage_def)
  qed
qed

lemma fst_editMessage:
  "fst (editMessage env cId mId update removePendingState touchUpdated conversations) =
     map (\<lambda>c. if c_id c = cId
        then c\<lparr>c_messages :=
                 map (\<lambda>m. fst (editOneMessage env mId update removePendingState touchUpdated m))
                   (c_messages c),
               c_tokenCount := foldTokenCount
                 (map (\<lambda>m. fst (editOneMessage env mId update removePendingState touchUpdated m))
                   (c_messages c)),
               c_updated := (if touchUpdated then Some (dateNow env) else c_updated c)\<rparr>
        else c) conversations"
  unfolding editMessage_def fst_editConversation
  by (rule map_cong[OF refl]) (simp add: case_prod_beta fst_mapEvents)

text \<open>
  C5. When the fragment id occurs in no message with the given message id of a
  conversation with the given conversation id, \<^verbatim>\<open>replaceMessageFragment\<close> leaves the
  fragment list of every message of the store as it was, and the \<^verbatim>\<open>updated\<close> time of a
  message changes only for the addressed message and only when \<^verbatim>\<open>touchUpdated\<close> is set, to
  the current time.
\<close>

theorem replaceMessageFragment_missing_fragment:
  assumes "\<forall>c\<in>set conversations. c_id c = cId \<longrightarrow>
             (\<forall>m\<in>set (c_messages c). m_id m = mId \<longrightarrow>
                (\<forall>f\<in>set (m_fragments m). fId f \<noteq> Some fragmentId))"
  shows "map (\<lambda>c. map m_fragments (c_messages c))
           (fst (replaceMessageFragment env cId mId fragmentId newFragment
                   removePendingState touchUpdated conversations))
           = map (\<lambda>c. map m_fragments (c_messages c)) conversations
       \<and> map (\<lambda>c. map m_updated (c_messages c))
           (fst (replaceMessageFragment env cId mId fragmentId newFragment
                   removePendingState touchUpdated conversations))
           = map (\<lambda>c. map (\<lambda>m. if touchUpdated \<and> c_id c = cId \<and> m_id m = mId
                                  then Some (dateNow env) else m_updated m) (c_messages c))
               conversations"
proof -
  have one: "m_id m = mId \<longrightarrow> (\<forall>f\<in>set (m_fragments m). fId f \<noteq> Some fragmentId)"
    if "c \<in> set conversations" and "c_id c = cId" and "m \<in> set (c_messages c)" for c m
    using that assms by blast
  show ?thesis
    unfolding replaceMessageFragment_def fst_editMessage map_map
    by (auto simp: o_def editOneMessage_missing_fragment [OF one])
qed


text \<open>
  C5 at a message with the fragment \<^verbatim>\<open>f1\<close> and a call that names \<^verbatim>\<open>f9\<close>, without and
  with \<^verbatim>\<open>touchUpdated\<close>.
\<close>

theorem replaceMessageFragment_missing_fragment_witness:
  "map (\<lambda>c. map m_fragments (c_messages c))
     (fst (replaceMessageFragment sampleEnv ''c1'' ''m1'' ''f9'' (sampleFragment (Some ''f9'') (TextPart ''new''))
             False False
             [sampleConversation ''c1''
                [sampleMessage ''m1'' [sampleFragment (Some ''f1'') (TextPart ''hi'')] 7] 14]))
     = [[[sampleFragment (Some ''f1'') (TextPart ''hi'')]]]
   \<and> map (\<lambda>c. map m_updated (c_messages c))
     (fst (replaceMessageFragment sampleEnv ''c1'' ''m1'' ''f9'' (sampleFragment (Some ''f9'') (TextPart ''new''))
             False False
             [sampleConversation ''c1''
                [sampleMessage ''m1'' [sampleFragment (Some ''f1'') (TextPart ''hi'')] 7] 14]))
     = [[Some 1]]
   \<and> map (\<lambda>c. map m_updated (c_messages c))
     (fst (replaceMessageFragment sampleEnv ''c1'' ''m1'' ''f9'' (sampleFragment (Some ''f9'') (TextPart ''new''))
             False True
             [sampleConversation ''c1''
                [sampleMessage ''m1'' [sampleFragment (Some ''f1'') (TextPart ''hi'')] 7] 14]))
     = [[Some 1000]]"
  using replaceMessageFragment_missing_fragment
    [where conversations = "[sampleConversation ''c1''
                [sampleMessage ''m1'' [sampleFragment (Some ''f1'') (TextPart ''hi'')] 7] 14]"
       and cId = "''c1''" and mId = "''m1''" and fragmentId = "''f9''" and env = sampleEnv
       and newFragment = "sampleFragment (Some ''f9'') (TextPart ''new'')"
       and removePendingState = False and touchUpdated = False]
    replaceMessageFragment_missing_fragment
    [where conversations = "[sampleConversation ''c1''
                [sampleMessage ''m1'' [sampleFragment (Some ''f1'') (TextPart ''hi'')] 7] 14]"
       and cId = "''c1''" and mId = "''m1''" and fragmentId = "''f9''" and env = sampleEnv
       and newFragment = "sampleFragment (Some ''f9'') (TextPart ''new'')"
       and removePendingState = False and touchUpdated = True]
  by (simp add: sample_defs)

text \<open>
  The same call writes the one \<^verbatim>\<open>console.error\<close> line and throws nothing.
\<close>

lemma replaceMessageFragment_missing_logs:
  "snd (replaceMessageFragment sampleEnv ''c1'' ''m1'' ''f9'' (sampleFragment (Some ''f9'') (TextPart ''new''))
          False False
          [sampleConversation ''c1''
             [sampleMessage ''m1'' [sampleFragment (Some ''f1'') (TextPart ''hi'')] 7] 14])
     = [ConsoleError [''replaceFragment: fragment not found for ID f9'']]"
  by (simp add: replaceMessageFragment_def editMessage_def editConversation_def editOneMessage_def
      replaceFragmentUpdate_def findIndex_def sample_defs token_defs Let_def)


subsection \<open>Importing a conversation\<close>

text \<open>
  C7. When the store has a conversation with the id of the incoming one (\<open>existing\<close> is the
  first, the one \<^verbatim>\<open>find\<close> returns), \<^verbatim>\<open>importConversation\<close> calls \<^verbatim>\<open>abort\<close> on the
  controller of the existing one if it has one; with \<^verbatim>\<open>preventClash\<close> the incoming
  conversation gets the identifier drawn from the generator, and a warning is written; the
  token count of every incoming message is recomputed with \<^verbatim>\<open>forceUpdate = true\<close> and the
  aggregate is 3 plus the sum of 4 plus each such count; the new list is the incoming
  conversation followed by the conversations whose id differs from its final id; that id
  is returned.
\<close>

theorem importConversation_clash:
  assumes "find (\<lambda>c. c_id c = c_id conversation) conversations = Some existing"
  shows "importConversation env k conversation preventClash conversations =
     (let newId = (if preventClash then agiUuid env ''chat-dconversation'' k else c_id conversation);
          imported = conversation\<lparr>
            c_id := newId,
            c_messages :=
              map (\<lambda>m. fst (updateMessageTokenCount env m (getChatLLMId env) True ''importConversation''))
                (c_messages conversation),
            c_tokenCount :=
              3 + (\<Sum>m\<leftarrow>c_messages conversation. 4 +
                     fst (snd (updateMessageTokenCount env m (getChatLLMId env) True
                                 ''importConversation'')))\<rparr>
      in (imported # filter (\<lambda>c. c_id c \<noteq> newId) conversations,
          newId,
          (case c_abortController existing of None \<Rightarrow> [] | Some h \<Rightarrow> [Abort h]) @
          (if preventClash
           then [ConsoleWarn [''Conversation ID clash, changing ID to'',
                              agiUuid env ''chat-dconversation'' k]]
           else []) @
          snd (snd (updateMessagesTokenCounts env (c_messages conversation) True
                      ''importConversation''))))"
proof -
  have counted: "updateMessagesTokenCounts env (c_messages conversation) True ''importConversation'' =
      (map (\<lambda>m. fst (updateMessageTokenCount env m (getChatLLMId env) True ''importConversation''))
         (c_messages conversation),
       3 + (\<Sum>m\<leftarrow>c_messages conversation. 4 +
              fst (snd (updateMessageTokenCount env m (getChatLLMId env) True ''importConversation''))),
       snd (snd (updateMessagesTokenCounts env (c_messages conversation) True ''importConversation'')))"
    by (simp add: prod_eq_iff fst_updateMessagesTokenCounts total_updateMessagesTokenCounts o_def
        updateMessageTokenCount_returns_stored)
  show ?thesis
  proof (cases preventClash)
    case True
    with assms show ?thesis
      unfolding importConversation_def
      by (simp add: Let_def abortOf_def) (subst counted, simp)
  next
    case False
    with assms show ?thesis
      unfolding importConversation_def
      by (simp add: Let_def abortOf_def) (subst counted, simp)
  qed
qed


text \<open>
  C7 at a clash on \<^verbatim>\<open>c1\<close>: with \<^verbatim>\<open>preventClash\<close> the incoming conversation is renamed
  and the existing one stays in the list; without, the existing one is replaced.
\<close>

theorem importConversation_clash_witness:
  "importConversation sampleEnv 0
      (sampleConversation ''c1'' [sampleMessage ''m1'' [sampleFragment (Some ''f1'') (TextPart ''hi'')] 7] 0)
      True [sampleConversation ''c2'' [] 3, sampleConversation ''c1'' [] 3]
     = ([sampleConversation ''chat-dconversationu''
           [sampleMessage ''m1'' [sampleFragment (Some ''f1'') (TextPart ''hi'')] 5] 12,
         sampleConversation ''c2'' [] 3, sampleConversation ''c1'' [] 3],
        ''chat-dconversationu'',
        [Abort 7, ConsoleWarn [''Conversation ID clash, changing ID to'', ''chat-dconversationu'']])
   \<and> importConversation sampleEnv 0
      (sampleConversation ''c1'' [sampleMessage ''m1'' [sampleFragment (Some ''f1'') (TextPart ''hi'')] 7] 0)
      False [sampleConversation ''c2'' [] 3, sampleConversation ''c1'' [] 3]
     = ([sampleConversation ''c1''
           [sampleMessage ''m1'' [sampleFragment (Some ''f1'') (TextPart ''hi'')] 5] 12,
         sampleConversation ''c2'' [] 3],
        ''c1'', [Abort 7])"
proof -
  let ?incoming = "sampleConversation ''c1''
      [sampleMessage ''m1'' [sampleFragment (Some ''f1'') (TextPart ''hi'')] 7] 0"
  let ?store = "[sampleConversation ''c2'' [] 3, sampleConversation ''c1'' [] 3]"
  have clash: "find (\<lambda>c. c_id c = c_id ?incoming) ?store = Some (sampleConversation ''c1'' [] 3)"
    by (simp add: sampleConversation_def)
  from importConversation_clash [OF clash, of sampleEnv 0 True]
    importConversation_clash [OF clash, of sampleEnv 0 False]
  show ?thesis
    by (simp add: sample_defs token_defs Let_def)
qed


subsection \<open>Branching a conversation\<close>

lemma find_Some_member: "find p xs = Some x \<Longrightarrow> x \<in> set xs \<and> p x"
  by (induction xs) (auto split: if_splits)

lemma uptoIncluding_take:
  "uptoIncluding mId ms = take (Suc (length (takeWhile (\<lambda>m. m_id m \<noteq> mId) ms))) ms"
  by (induction ms) simp_all

lemma duplicateMessages_zip:
  "duplicateMessages env k ms =
     map2 (\<lambda>m i. m\<lparr>m_id := agiUuid env ''chat-dmessage'' i\<rparr>) ms [k ..< k + length ms]"
proof (induction ms arbitrary: k)
  case Nil
  show ?case by simp
next
  case (Cons m ms)
  have "[k ..< k + length (m # ms)] = k # [Suc k ..< Suc k + length ms]"
    by (subst upt_rec) simp
  with Cons show ?case by simp
qed

text \<open>
  C6. \<^verbatim>\<open>branchConversation\<close> returns \<^verbatim>\<open>null\<close> exactly when no conversation of the store
  has the given id. Otherwise, with \<open>conversation\<close> the one that \<^verbatim>\<open>find\<close> returns, the new
  list is the duplicate followed by the old list, and the id of the duplicate is returned.
  The duplicate, by the definition that follows the spec, carries the messages up to and
  including the first one with the given message id (all of them when no id is given),
  and its id and the ids of its messages are the next identifiers of the generator.
\<close>

theorem branchConversation_result:
  "((snd (branchConversation env k cId messageId conversations) = None)
      = (\<forall>c\<in>set conversations. c_id c \<noteq> cId))
   \<and> (\<forall>conversation. find (\<lambda>c. c_id c = cId) conversations = Some conversation \<longrightarrow>
        (let kept = (case messageId of
                       None \<Rightarrow> c_messages conversation
                     | Some mId \<Rightarrow>
                         take (Suc (length (takeWhile (\<lambda>m. m_id m \<noteq> mId) (c_messages conversation))))
                           (c_messages conversation));
             branched = conversation\<lparr>
               c_id := agiUuid env ''chat-dconversation'' k,
               c_messages := map2 (\<lambda>m i. m\<lparr>m_id := agiUuid env ''chat-dmessage'' i\<rparr>) kept
                               [Suc k ..< Suc k + length kept],
               c_abortController := None\<rparr>
         in branchConversation env k cId messageId conversations
              = (branched # conversations, Some (agiUuid env ''chat-dconversation'' k))))"
proof (intro conjI allI impI)
  show "(snd (branchConversation env k cId messageId conversations) = None)
      = (\<forall>c\<in>set conversations. c_id c \<noteq> cId)"
    by (auto simp: branchConversation_def Let_def find_None_iff split: option.splits
        dest: find_Some_member)
next
  fix conversation
  assume "find (\<lambda>c. c_id c = cId) conversations = Some conversation"
  then show "let kept = (case messageId of
                       None \<Rightarrow> c_messages conversation
                     | Some mId \<Rightarrow>
                         take (Suc (length (takeWhile (\<lambda>m. m_id m \<noteq> mId) (c_messages conversation))))
                           (c_messages conversation));
             branched = conversation\<lparr>
               c_id := agiUuid env ''chat-dconversation'' k,
               c_messages := map2 (\<lambda>m i. m\<lparr>m_id := agiUuid env ''chat-dmessage'' i\<rparr>) kept
                               [Suc k ..< Suc k + length kept],
               c_abortController := None\<rparr>
         in branchConversation env k cId messageId conversations
              = (branched # conversations, Some (agiUuid env ''chat-dconversation'' k))"
    by (simp add: branchConversation_def duplicateCConversation_def Let_def
        duplicateMessages_zip uptoIncluding_take split: option.splits)
qed


text \<open>
  C6 at a conversation of five messages, branched at the second: the duplicate has two
  messages and stands at index 0. An unknown conversation id gives \<^verbatim>\<open>null\<close>.
\<close>

theorem branchConversation_result_witness:
  "branchConversation sampleEnv 0 ''c1'' (Some ''m2'')
      [sampleConversation ''c1''
         [sampleMessage ''m1'' [] 1, sampleMessage ''m2'' [] 2, sampleMessage ''m3'' [] 3,
          sampleMessage ''m4'' [] 4, sampleMessage ''m5'' [] 5] 0]
     = ([(sampleConversation ''chat-dconversationu''
            [sampleMessage ''chat-dmessageuu'' [] 1, sampleMessage ''chat-dmessageuuu'' [] 2] 0)
           \<lparr>c_abortController := None\<rparr>,
         sampleConversation ''c1''
           [sampleMessage ''m1'' [] 1, sampleMessage ''m2'' [] 2, sampleMessage ''m3'' [] 3,
            sampleMessage ''m4'' [] 4, sampleMessage ''m5'' [] 5] 0],
        Some ''chat-dconversationu'')
   \<and> snd (branchConversation sampleEnv 0 ''c9'' None
      [sampleConversation ''c1''
         [sampleMessage ''m1'' [] 1, sampleMessage ''m2'' [] 2, sampleMessage ''m3'' [] 3,
          sampleMessage ''m4'' [] 4, sampleMessage ''m5'' [] 5] 0]) = None"
proof -
  let ?source = "sampleConversation ''c1''
         [sampleMessage ''m1'' [] 1, sampleMessage ''m2'' [] 2, sampleMessage ''m3'' [] 3,
          sampleMessage ''m4'' [] 4, sampleMessage ''m5'' [] 5] 0"
  have found: "find (\<lambda>c. c_id c = ''c1'') [?source] = Some ?source"
    by (simp add: sampleConversation_def)
  have absent: "\<forall>c\<in>set [?source]. c_id c \<noteq> ''c9''"
    by (simp add: sampleConversation_def)
  from branchConversation_result [of sampleEnv 0 "''c1''" "Some ''m2''" "[?source]"] found
  have "let kept = take (Suc (length (takeWhile (\<lambda>m. m_id m \<noteq> ''m2'') (c_messages ?source))))
                           (c_messages ?source);
             branched = ?source\<lparr>
               c_id := agiUuid sampleEnv ''chat-dconversation'' 0,
               c_messages := map2 (\<lambda>m i. m\<lparr>m_id := agiUuid sampleEnv ''chat-dmessage'' i\<rparr>) kept
                               [Suc 0 ..< Suc 0 + length kept],
               c_abortController := None\<rparr>
         in branchConversation sampleEnv 0 ''c1'' (Some ''m2'') [?source]
              = (branched # [?source], Some (agiUuid sampleEnv ''chat-dconversation'' 0))"
    by simp
  then have first: "branchConversation sampleEnv 0 ''c1'' (Some ''m2'') [?source]
     = ([(sampleConversation ''chat-dconversationu''
            [sampleMessage ''chat-dmessageuu'' [] 1, sampleMessage ''chat-dmessageuuu'' [] 2] 0)
           \<lparr>c_abortController := None\<rparr>, ?source],
        Some ''chat-dconversationu'')"
    by (simp add: sample_defs Let_def upt_rec)
  from branchConversation_result [of sampleEnv 0 "''c9''" None "[?source]"] absent
  have second: "snd (branchConversation sampleEnv 0 ''c9'' None [?source]) = None"
    by blast
  from first second show ?thesis by simp
qed


subsection \<open>Saving and loading\<close>

lemma mapCount_all:
  assumes "\<And>k x. x \<in> set xs \<Longrightarrow> P (fst (f k x))"
  shows "\<forall>y\<in>set (fst (mapCount f k xs)). P y"
  using assms by (induction xs arbitrary: k) (simp_all add: case_prod_beta)

lemma mapCount_map:
  assumes "\<And>k x. x \<in> set xs \<Longrightarrow> g (fst (f k x)) = h x"
  shows "map g (fst (mapCount f k xs)) = map h xs"
  using assms by (induction xs arbitrary: k) (simp_all add: case_prod_beta)

lemma hasFragmentId_truthy: "hasFragmentId f = (\<not> falsyString (fId f))"
  by (simp add: hasFragmentId_def)

lemma hasFragmentId_iff: "hasFragmentId f = (\<exists>s. fId f = Some s \<and> s \<noteq> [])"
  by (auto simp: hasFragmentId_def falsyString_def split: option.splits)

lemma fixupFragment_fId:
  assumes "\<forall>namespace k. agiId env namespace k \<noteq> []"
  shows "hasFragmentId (fst (fixupFragment env k fragment))"
  using assms
  by (simp add: fixupFragment_def Let_def hasFragmentId_truthy)
     (simp add: falsyString_def split: DMessagePart.splits)

lemma replacePlaceholder_fId:
  assumes "\<forall>error k. hasFragmentId (createErrorContentFragment env error k)"
    and "hasFragmentId fragment"
  shows "hasFragmentId (fst (replacePlaceholder env k fragment))"
  using assms by (simp add: replacePlaceholder_def split: DMessagePart.splits)

lemma fixupMessage_fragments:
  assumes "\<forall>namespace k. agiId env namespace k \<noteq> []"
    and "\<forall>error k. hasFragmentId (createErrorContentFragment env error k)"
  shows "\<forall>f\<in>set (m_fragments (fst (fixupMessage env k message))). hasFragmentId f"
proof -
  have fixed: "\<forall>f\<in>set (fst (mapCount (fixupFragment env) k (m_fragments message))). hasFragmentId f"
    by (rule mapCount_all) (rule fixupFragment_fId [OF assms(1)])
  have "\<forall>f\<in>set (fst (mapCount (replacePlaceholder env)
            (snd (mapCount (fixupFragment env) k (m_fragments message)))
            (fst (mapCount (fixupFragment env) k (m_fragments message))))). hasFragmentId f"
    by (rule mapCount_all) (simp add: replacePlaceholder_fId [OF assms(2)] fixed)
  then show ?thesis
    by (simp add: fixupMessage_def case_prod_beta)
qed

lemma fixupConversation_result:
  assumes "\<forall>namespace k. agiId env namespace k \<noteq> []"
    and "\<forall>error k. hasFragmentId (createErrorContentFragment env error k)"
  shows "c_abortController (fst (fixupConversation env k conversation)) = None
       \<and> (\<forall>m\<in>set (c_messages (fst (fixupConversation env k conversation))).
             \<forall>f\<in>set (m_fragments m). hasFragmentId f)"
proof -
  have "\<forall>m\<in>set (fst (mapCount (fixupMessage env) k (c_messages conversation))).
          \<forall>f\<in>set (m_fragments m). hasFragmentId f"
    by (rule mapCount_all) (rule fixupMessage_fragments [OF assms])
  then show ?thesis
    by (simp add: fixupConversation_def case_prod_beta)
qed

lemma fixupConversation_id: "c_id (fst (fixupConversation env k conversation)) = c_id conversation"
  by (simp add: fixupConversation_def case_prod_beta)

lemma length_mapCount: "length (fst (mapCount f k xs)) = length xs"
  by (induction xs arbitrary: k) (simp_all add: case_prod_beta)

lemma fixupMessage_shape:
  "m_id (fst (fixupMessage env k message)) = m_id message"
  "length (m_fragments (fst (fixupMessage env k message))) = length (m_fragments message)"
  by (simp_all add: fixupMessage_def case_prod_beta length_mapCount)

lemma fixupConversation_shape:
  "map (\<lambda>m. (m_id m, length (m_fragments m))) (c_messages (fst (fixupConversation env k conversation)))
     = map (\<lambda>m. (m_id m, length (m_fragments m))) (c_messages conversation)"
  by (simp add: fixupConversation_def case_prod_beta mapCount_map fixupMessage_shape)

text \<open>
  C9. When the identifier generator returns no empty string and the error fragments that
  \<^verbatim>\<open>createErrorContentFragment\<close> makes have a non-empty \<^verbatim>\<open>fId\<close> (both are outside the
  sources), \<^verbatim>\<open>onRehydrateStorage\<close> applied to the result of \<^verbatim>\<open>partialize\<close> yields a
  state in which every conversation has the controller \<^verbatim>\<open>null\<close> and every fragment of
  every message has a non-empty \<^verbatim>\<open>fId\<close>. The state has the same conversations, the same
  messages and as many fragments in each message as before.
\<close>

theorem partialize_rehydrate:
  assumes "\<forall>namespace k. agiId env namespace k \<noteq> []"
    and "\<forall>error k. \<exists>s. fId (createErrorContentFragment env error k) = Some s \<and> s \<noteq> []"
  shows "\<exists>restored. onRehydrateStorage env k (Some (partialize conversations)) = Some restored
     \<and> (\<forall>c\<in>set restored. c_abortController c = None
           \<and> (\<forall>m\<in>set (c_messages c). \<forall>f\<in>set (m_fragments m). \<exists>s. fId f = Some s \<and> s \<noteq> []))
     \<and> map c_id restored = map c_id conversations
     \<and> map (\<lambda>c. map (\<lambda>m. (m_id m, length (m_fragments m))) (c_messages c)) restored
         = map (\<lambda>c. map (\<lambda>m. (m_id m, length (m_fragments m))) (c_messages c)) conversations"
proof -
  define restored where
    "restored = fst (mapCount (fixupConversation env) k (partialize conversations))"
  from assms(2) have errors: "\<forall>error k. hasFragmentId (createErrorContentFragment env error k)"
    by (simp add: hasFragmentId_iff)
  have "onRehydrateStorage env k (Some (partialize conversations)) = Some restored"
    by (simp add: onRehydrateStorage_def restored_def)
  moreover have "\<forall>c\<in>set restored. c_abortController c = None
           \<and> (\<forall>m\<in>set (c_messages c). \<forall>f\<in>set (m_fragments m). hasFragmentId f)"
    unfolding restored_def
    by (rule mapCount_all) (rule fixupConversation_result [OF assms(1) errors])
  moreover have "map c_id restored = map c_id (partialize conversations)"
    unfolding restored_def by (rule mapCount_map) (rule fixupConversation_id)
  moreover have "map (\<lambda>c. map (\<lambda>m. (m_id m, length (m_fragments m))) (c_messages c)) restored
      = map (\<lambda>c. map (\<lambda>m. (m_id m, length (m_fragments m))) (c_messages c)) (partialize conversations)"
    unfolding restored_def by (rule mapCount_map) (rule fixupConversation_shape)
  ultimately show ?thesis
    by (simp add: hasFragmentId_iff partialize_def o_def)
qed


text \<open>
  C9 at a conversation with a controller and one pending message of four fragments:
  one with an id, one without, a placeholder with an empty id, and an image reference with
  the legacy \<^verbatim>\<open>dblobId\<close> and no id.
\<close>

theorem partialize_rehydrate_witness:
  "(\<exists>restored.
      onRehydrateStorage sampleEnv 0 (Some (partialize
        [sampleConversation ''c1''
           [(sampleMessage ''m1''
               [sampleFragment (Some ''f1'') (TextPart ''hi''),
                sampleFragment None (TextPart ''yo''),
                sampleFragment (Some []) (PlaceholderPart ''thinking''),
                sampleFragment None
                  (ImageRefPart \<lparr>reftype = ''dblob'', dblobId = Some ''a1'', dblobAssetId = None\<rparr>)] 7)
              \<lparr>m_pendingIncomplete := Some True\<rparr>] 11])) = Some restored
      \<and> (\<forall>c\<in>set restored. c_abortController c = None
            \<and> (\<forall>m\<in>set (c_messages c). \<forall>f\<in>set (m_fragments m). \<exists>s. fId f = Some s \<and> s \<noteq> [])))
   \<and> onRehydrateStorage sampleEnv 0 (Some (partialize
        [sampleConversation ''c1''
           [(sampleMessage ''m1''
               [sampleFragment (Some ''f1'') (TextPart ''hi''),
                sampleFragment None (TextPart ''yo''),
                sampleFragment (Some []) (PlaceholderPart ''thinking''),
                sampleFragment None
                  (ImageRefPart \<lparr>reftype = ''dblob'', dblobId = Some ''a1'', dblobAssetId = None\<rparr>)] 7)
              \<lparr>m_pendingIncomplete := Some True\<rparr>] 11]))
     = Some [(sampleConversation ''c1''
           [sampleMessage ''m1''
               [sampleFragment (Some ''f1'') (TextPart ''hi''),
                sampleFragment (Some ''chat-dfragmenti'') (TextPart ''yo''),
                sampleFragment (Some ''chat-dfragmenteeee'') (ErrorPart ''thinking (did not complete)''),
                sampleFragment (Some ''chat-dfragmentiii'')
                  (ImageRefPart \<lparr>reftype = ''dblob'', dblobId = None, dblobAssetId = Some ''a1''\<rparr>)] 7] 11)
          \<lparr>c_abortController := None\<rparr>]"
proof -
  have ids: "\<forall>namespace k. agiId sampleEnv namespace k \<noteq> []"
    by (simp add: sampleEnv_def)
  have errors: "\<forall>error k. \<exists>s. fId (createErrorContentFragment sampleEnv error k) = Some s \<and> s \<noteq> []"
    by (simp add: sampleEnv_def)
  from partialize_rehydrate [OF ids errors, of 0] show ?thesis
    by (simp add: onRehydrateStorage_def partialize_def fixupConversation_def fixupMessage_def
        fixupFragment_def replacePlaceholder_def isContentFragment_def falsyString_def
        sample_defs Let_def)
qed


end
